theory Spec2Isabelle
  imports Main "HOL-Library.Word" "HOL-Library.AList" "HOL-Library.Char_ord"
    "HOL-Library.List_Lexorder"
begin

section \<open>GeeRPC: registry, server, client and balanced client\<close>

text \<open>
  A shallow embedding of the Go sources of the repository.  Go maps are association
  lists with distinct keys (the order of the list is the order in which \<open>range\<close> visits
  the entries, which Go leaves open, so the theorems hold for every order); an \<open>error\<close>
  is its message, and a nil error is \<open>None\<close>; a \<open>time.Time\<close> and a \<open>time.Duration\<close>
  are integers (nanoseconds).
\<close>

type_synonym error = string

subsection \<open>registry/registry.go\<close>

record ServerItem =
  Addr :: string
  start :: int

record GeeRegistry =
  timeout :: int
  servers :: "(string \<times> ServerItem) list"

definition defaultPath :: string where
  "defaultPath = ''/_geerpc_/registry''"

definition defaultTimeout :: int where
  "defaultTimeout = 5 * 60 * 1000000000"

definition New :: "int \<Rightarrow> GeeRegistry" where
  "New tmo = \<lparr>timeout = tmo, servers = []\<rparr>"

text \<open>\<open>putServer\<close>; \<open>now\<close> is the reading of \<open>time.Now()\<close>.\<close>

definition putServer :: "GeeRegistry \<Rightarrow> string \<Rightarrow> int \<Rightarrow> GeeRegistry" where
  "putServer r addr now =
     (case map_of (servers r) addr of
        None \<Rightarrow> r\<lparr>servers := AList.update addr \<lparr>Addr = addr, start = now\<rparr> (servers r)\<rparr>
      | Some s \<Rightarrow> r\<lparr>servers := AList.update addr (s\<lparr>start := now\<rparr>) (servers r)\<rparr>)"

text \<open>
  One iteration of the loop of \<open>aliveServers\<close> on the entry \<open>(addr, s)\<close>.  The loop calls
  \<open>time.Now()\<close> once per entry: \<open>clock addr\<close> is the reading taken at the entry of \<open>addr\<close>.
  The state of the loop is the slice \<open>alive\<close> and the map \<open>r.servers\<close>.
\<close>

definition aliveStep ::
  "int \<Rightarrow> (string \<Rightarrow> int) \<Rightarrow> string \<times> ServerItem \<Rightarrow>
   string list \<times> (string \<times> ServerItem) list \<Rightarrow> string list \<times> (string \<times> ServerItem) list" where
  "aliveStep tmo clock e st =
     (case e of (addr, s) \<Rightarrow> case st of (alive, srv) \<Rightarrow>
        if tmo = 0 \<or> start s + tmo > clock addr
        then (alive @ [addr], srv)
        else (alive, AList.delete addr srv))"

definition aliveServers :: "GeeRegistry \<Rightarrow> (string \<Rightarrow> int) \<Rightarrow> string list \<times> GeeRegistry" where
  "aliveServers r clock =
     (case fold (aliveStep (timeout r) clock) (servers r) ([], servers r) of
        (alive, srv) \<Rightarrow> (sort alive, r\<lparr>servers := srv\<rparr>))"

text \<open>\<open>strings.Join\<close> of the standard library.\<close>

fun Join :: "string list \<Rightarrow> string \<Rightarrow> string" where
  "Join [] sep = []"
| "Join [x] sep = x"
| "Join (x # y # ys) sep = x @ sep @ Join (y # ys) sep"

text \<open>
  An HTTP request as far as the handlers read it, and the response writer as far as they
  write it: \<open>Status\<close> is \<open>None\<close> until \<open>WriteHeader\<close> is called (\<open>net/http\<close> then answers
  200), \<open>Body\<close> is what was written with \<open>io.WriteString\<close>.  \<open>Header.Get\<close> answers the empty
  string for a key that is absent.
\<close>

record Request =
  Method :: string
  ReqHeader :: "string \<rightharpoonup> string"

record ResponseWriter =
  RespHeader :: "string \<rightharpoonup> string"
  Status :: "nat option"
  Body :: string

definition newResponseWriter :: ResponseWriter where
  "newResponseWriter = \<lparr>RespHeader = Map.empty, Status = None, Body = []\<rparr>"

definition statusCode :: "ResponseWriter \<Rightarrow> nat" where
  "statusCode w = (case Status w of None \<Rightarrow> 200 | Some c \<Rightarrow> c)"

definition HeaderGet :: "(string \<rightharpoonup> string) \<Rightarrow> string \<Rightarrow> string" where
  "HeaderGet h k = (case h k of None \<Rightarrow> [] | Some v \<Rightarrow> v)"

definition StatusInternalServerError :: nat where
  "StatusInternalServerError = 500"

definition StatusMethodNotAllowed :: nat where
  "StatusMethodNotAllowed = 405"

text \<open>\<open>(*GeeRegistry).ServeHTTP\<close>; \<open>clock\<close> as in \<open>aliveStep\<close>, \<open>now\<close> as in \<open>putServer\<close>.\<close>

definition registry_ServeHTTP ::
  "GeeRegistry \<Rightarrow> ResponseWriter \<Rightarrow> Request \<Rightarrow> (string \<Rightarrow> int) \<Rightarrow> int \<Rightarrow>
   GeeRegistry \<times> ResponseWriter" where
  "registry_ServeHTTP r w req clock now =
     (if Method req = ''GET'' then
        (case aliveServers r clock of (alive, r') \<Rightarrow>
           (r', w\<lparr>RespHeader := (RespHeader w)(''X-Geerpc-Servers'' \<mapsto> Join alive '','')\<rparr>))
      else if Method req = ''POST'' then
        (let addr = HeaderGet (ReqHeader req) ''X-Geerpc-Server'' in
         if addr = [] then (r, w\<lparr>Status := Some StatusInternalServerError\<rparr>)
         else (putServer r addr now, w))
      else (r, w\<lparr>Status := Some StatusMethodNotAllowed\<rparr>))"

text \<open>The entries that the scan of \<open>aliveServers\<close> keeps.\<close>

definition isAlive :: "int \<Rightarrow> (string \<Rightarrow> int) \<Rightarrow> string \<times> ServerItem \<Rightarrow> bool" where
  "isAlive tmo clock e = (tmo = 0 \<or> start (snd e) + tmo > clock (fst e))"

text \<open>The invariant of the map \<open>r.servers\<close>: keys are distinct, and every item carries its key.\<close>

definition registry_ok :: "GeeRegistry \<Rightarrow> bool" where
  "registry_ok r = (distinct (map fst (servers r)) \<and> list_all (\<lambda>e. Addr (snd e) = fst e) (servers r))"

subsection \<open>client.go: the struct \<open>Call\<close>\<close>

text \<open>
  A \<open>*Call\<close> and a \<open>chan *Call\<close> are references into a store (see the client below).  The
  struct comes before \<open>codec.Header\<close>, with which it shares three field names: the fields of
  a \<open>Call\<close> are written \<open>Call.Seq\<close>, \<open>Call.ServiceMethod\<close> and \<open>Call.Error\<close>.
\<close>

type_synonym callref = nat

type_synonym chanref = nat

record 'v Call =
  Seq :: "64 word"
  ServiceMethod :: string
  Args :: 'v
  Reply :: 'v
  Error :: "error option"
  Done :: chanref

subsection \<open>codec/codec.go\<close>

record Header =
  ServiceMethod :: string
  Seq :: "64 word"
  Error :: string

definition GobType :: string where
  "GobType = ''application/gob''"

definition JsonType :: string where
  "JsonType = ''application/json''"

text \<open>\<open>NewCodecFuncMap\<close> after \<open>init\<close>: only the gob codec is registered.\<close>

definition NewCodecFuncMap :: "string \<Rightarrow> bool" where
  "NewCodecFuncMap t = (t = GobType)"

subsection \<open>service.go\<close>

text \<open>
  What reflection shows of a receiver: the name of its type, and for each method of the type
  its name, the numbers of its parameters (the receiver included) and results, whether the
  first result is of type \<open>error\<close>, and the types of the two parameters after the receiver.
  \<open>ast.IsExported\<close> belongs to the standard library and is a parameter \<open>isExported\<close>.
\<close>

record rtype =
  tName :: string
  tPkgPath :: string

record rmethod =
  mName :: string
  NumIn :: nat
  NumOut :: nat
  Out0IsError :: bool
  In1 :: rtype
  In2 :: rtype

record receiver =
  typeName :: string
  typeMethods :: "rmethod list"

record methodType =
  "method" :: rmethod
  ArgType :: rtype
  ReplyType :: rtype
  numCalls :: "64 word"

record service =
  name :: string
  rcvr :: receiver
  methodMap :: "string \<rightharpoonup> methodType"

definition isExportedOrBuiltinType :: "(string \<Rightarrow> bool) \<Rightarrow> rtype \<Rightarrow> bool" where
  "isExportedOrBuiltinType isExported t = (isExported (tName t) \<or> tPkgPath t = [])"

text \<open>The body of the loop of \<open>registerMethods\<close>, on the method \<open>m\<close>.\<close>

definition registerMethod ::
  "(string \<Rightarrow> bool) \<Rightarrow> rmethod \<Rightarrow> (string \<rightharpoonup> methodType) \<Rightarrow> (string \<rightharpoonup> methodType)" where
  "registerMethod isExported m mm =
     (if NumIn m \<noteq> 3 \<or> NumOut m \<noteq> 1 then mm
      else if \<not> Out0IsError m then mm
      else if \<not> isExportedOrBuiltinType isExported (In1 m) \<or>
              \<not> isExportedOrBuiltinType isExported (In2 m) then mm
      else mm(mName m \<mapsto> \<lparr>method = m, ArgType = In1 m, ReplyType = In2 m, numCalls = 0\<rparr>))"

definition registerMethods :: "(string \<Rightarrow> bool) \<Rightarrow> receiver \<Rightarrow> (string \<rightharpoonup> methodType)" where
  "registerMethods isExported r = fold (registerMethod isExported) (typeMethods r) Map.empty"

text \<open>\<open>newService\<close>; \<open>log.Fatalf\<close> ends the process, which is the result \<open>Inl\<close> of the message.\<close>

definition newService :: "(string \<Rightarrow> bool) \<Rightarrow> receiver \<Rightarrow> string + service" where
  "newService isExported r =
     (if \<not> isExported (typeName r)
      then Inl (''rpc server: '' @ typeName r @ '' is not a valid service name'')
      else Inr \<lparr>name = typeName r, rcvr = r, methodMap = registerMethods isExported r\<rparr>)"

subsection \<open>server.go\<close>

definition MagicNumber :: int where
  "MagicNumber = 0x3bef5c"

text \<open>
  The struct \<open>Option\<close>; its field \<open>MagicNumber\<close> is \<open>oMagicNumber\<close> here, the name
  \<open>MagicNumber\<close> being the constant's.
\<close>

record Option =
  oMagicNumber :: int
  CodecType :: string
  ConnectTimeout :: int
  HandleTimeout :: int

definition DefaultOption :: Option where
  "DefaultOption = \<lparr>oMagicNumber = MagicNumber, CodecType = GobType,
     ConnectTimeout = 10 * 1000000000, HandleTimeout = 0\<rparr>"

record Server =
  serviceMap :: "string \<rightharpoonup> service"

definition NewServer :: Server where
  "NewServer = \<lparr>serviceMap = Map.empty\<rparr>"

text \<open>
  \<open>Register\<close>.  \<open>LoadOrStore\<close> stores the service only when the key is absent.  The result is
  \<open>Inl\<close> when \<open>newService\<close> ended the process, and otherwise the returned error with the
  server as the call leaves it.
\<close>

definition Register ::
  "(string \<Rightarrow> bool) \<Rightarrow> Server \<Rightarrow> receiver \<Rightarrow> string + (error option \<times> Server)" where
  "Register isExported server r =
     (case newService isExported r of
        Inl fatal \<Rightarrow> Inl fatal
      | Inr s \<Rightarrow>
          (case serviceMap server (name s) of
             Some _ \<Rightarrow> Inr (Some (''rpc: service already defined: '' @ name s), server)
           | None \<Rightarrow> Inr (None, server\<lparr>serviceMap := (serviceMap server)(name s \<mapsto> s)\<rparr>)))"

text \<open>The servers that exist: a new server, and a server after a call of \<open>Register\<close>.\<close>

inductive reachableServer :: "(string \<Rightarrow> bool) \<Rightarrow> Server \<Rightarrow> bool" for isExported where
  new: "reachableServer isExported NewServer"
| reg: "reachableServer isExported server \<Longrightarrow> Register isExported server r = Inr (err, server') \<Longrightarrow>
        reachableServer isExported server'"

definition connected :: string where
  "connected = ''200 Connected to Gee RPC''"

definition defaultRPCPath :: string where
  "defaultRPCPath = ''/_geeprc_''"

definition defaultDebugPath :: string where
  "defaultDebugPath = ''/debug/geerpc''"

text \<open>
  \<open>(*Server).ServeHTTP\<close>.  \<open>hijack\<close> is the result of \<open>w.(http.Hijacker).Hijack()\<close>: an error, or
  the connection.  The result is the response writer, what was written on the hijacked
  connection, and whether \<open>ServeConn\<close> was started on it.
\<close>

record ServeHTTP_result =
  writer :: ResponseWriter
  connWritten :: string
  servedConn :: bool

definition server_ServeHTTP :: "ResponseWriter \<Rightarrow> Request \<Rightarrow> error option \<Rightarrow> ServeHTTP_result" where
  "server_ServeHTTP w req hijack =
     (if Method req \<noteq> ''CONNECT'' then
        \<lparr>writer = w\<lparr>RespHeader := (RespHeader w)(''Content-Type'' \<mapsto> ''text/plain; charset=utf-8''),
                     Status := Some StatusMethodNotAllowed,
                     Body := Body w @ ''405 must CONNECT'' @ [CHR 0x0A]\<rparr>,
         connWritten = [], servedConn = False\<rparr>
      else case hijack of
        Some err \<Rightarrow> \<lparr>writer = w, connWritten = [], servedConn = False\<rparr>
      | None \<Rightarrow> \<lparr>writer = w, connWritten = ''HTTP/1.0 '' @ connected @ [CHR 0x0A, CHR 0x0A],
                  servedConn = True\<rparr>)"

text \<open>
  \<open>HandleHTTP\<close> registers two handlers in the multiplexer of \<open>net/http\<close>, a map from patterns to
  handlers; \<open>http.Handle\<close> panics on a pattern that is already registered.  A pattern that
  does not end in a slash matches its own path only.
\<close>

datatype handler = RPCHandler | DebugHandler

definition http_Handle :: "string \<Rightarrow> handler \<Rightarrow> (string \<rightharpoonup> handler) \<Rightarrow> string + (string \<rightharpoonup> handler)" where
  "http_Handle pattern hdl mux =
     (case mux pattern of
        Some _ \<Rightarrow> Inl (''http: multiple registrations for '' @ pattern)
      | None \<Rightarrow> Inr (mux(pattern \<mapsto> hdl)))"

definition HandleHTTP :: "(string \<rightharpoonup> handler) \<Rightarrow> string + (string \<rightharpoonup> handler)" where
  "HandleHTTP mux =
     (case http_Handle defaultRPCPath RPCHandler mux of
        Inl p \<Rightarrow> Inl p
      | Inr mux' \<Rightarrow> http_Handle defaultDebugPath DebugHandler mux')"

text \<open>
  \<open>handleRequest\<close> runs two goroutines that meet on the unbuffered channels \<open>called\<close> and
  \<open>sent\<close>: the caller of \<open>handleRequest\<close> (here \<open>main\<close>), which waits at the \<open>select\<close> (or at
  \<open><-called\<close> when the timeout is 0) and then at \<open><-sent\<close>, and the goroutine it starts (here
  \<open>worker\<close>), which calls the method, offers \<open>called\<close>, sends the response and offers \<open>sent\<close>.
  Both share the header \<open>req.h\<close>.  The state holds the place of each goroutine, the header,
  the reply value \<open>req.replyv\<close>, and the frames written on the connection by \<open>sendResponse\<close>,
  each a header with a body: the placeholder \<open>invalidRequest\<close> or a reply value.
\<close>

datatype 'v body = invalidRequest | ReplyBody 'v

datatype main_pc = AtSelect | AwaitSent | Returned

datatype worker_pc = Calling | AtCalled "error option" | Responding "error option" | AtSent | Finished

record 'v handler_state =
  req_h :: Header
  replyv :: 'v
  main :: main_pc
  worker :: worker_pc
  wire :: "(Header \<times> 'v body) list"

text \<open>\<open>sendResponse\<close>: one header and one body, written under the lock \<open>sending\<close>.\<close>

definition sendResponse :: "Header \<Rightarrow> 'v body \<Rightarrow> 'v handler_state \<Rightarrow> 'v handler_state" where
  "sendResponse hdr b st = st\<lparr>wire := wire st @ [(hdr, b)]\<rparr>"

text \<open>
  The steps of the two goroutines.  \<open>MethodReturns err v\<close>: \<open>req.svc.call\<close> returns \<open>err\<close>, having
  left \<open>v\<close> in the reply.  \<open>RecvCalled\<close> and \<open>RecvSent\<close>: the two goroutines meet on \<open>called\<close> and
  on \<open>sent\<close>.  \<open>Respond\<close>: the worker sends its response.  \<open>Timeout\<close>: the \<open>select\<close> takes the
  case of \<open>time.After(timeout)\<close>, which the code reaches only when the timeout is not 0.
\<close>

datatype 'v event = MethodReturns "error option" 'v | RecvCalled | Respond | RecvSent | Timeout

text \<open>
  One step of \<open>handleRequest\<close>; \<open>None\<close> when the goroutine of the event is not at that place.
  \<open>fmt\<close> prints a \<open>time.Duration\<close> as \<open>%s\<close> does (standard library).
\<close>

definition timeoutError :: "(int \<Rightarrow> string) \<Rightarrow> int \<Rightarrow> string" where
  "timeoutError fmt tmo = ''rpc server: request handle timeout: expect within '' @ fmt tmo"

fun step :: "(int \<Rightarrow> string) \<Rightarrow> int \<Rightarrow> 'v event \<Rightarrow> 'v handler_state \<Rightarrow> 'v handler_state option" where
  "step fmt tmo (MethodReturns err v) st =
     (if worker st = Calling then Some (st\<lparr>replyv := v, worker := AtCalled err\<rparr>) else None)"
| "step fmt tmo RecvCalled st =
     (case worker st of
        AtCalled err \<Rightarrow>
          if main st = AtSelect then Some (st\<lparr>main := AwaitSent, worker := Responding err\<rparr>)
          else None
      | _ \<Rightarrow> None)"
| "step fmt tmo Respond st =
     (case worker st of
        Responding (Some err) \<Rightarrow>
          Some (sendResponse ((req_h st)\<lparr>Error := err\<rparr>) invalidRequest
                  (st\<lparr>req_h := (req_h st)\<lparr>Error := err\<rparr>, worker := AtSent\<rparr>))
      | Responding None \<Rightarrow>
          Some (sendResponse (req_h st) (ReplyBody (replyv st)) (st\<lparr>worker := AtSent\<rparr>))
      | _ \<Rightarrow> None)"
| "step fmt tmo RecvSent st =
     (if worker st = AtSent \<and> main st = AwaitSent
      then Some (st\<lparr>main := Returned, worker := Finished\<rparr>) else None)"
| "step fmt tmo Timeout st =
     (if tmo \<noteq> 0 \<and> main st = AtSelect
      then Some (sendResponse ((req_h st)\<lparr>Error := timeoutError fmt tmo\<rparr>) invalidRequest
                   (st\<lparr>req_h := (req_h st)\<lparr>Error := timeoutError fmt tmo\<rparr>, main := Returned\<rparr>))
      else None)"

text \<open>A run of \<open>handleRequest\<close>: the steps of a schedule, one after the other.\<close>

fun run :: "(int \<Rightarrow> string) \<Rightarrow> int \<Rightarrow> 'v event list \<Rightarrow> 'v handler_state \<Rightarrow> 'v handler_state option" where
  "run fmt tmo [] st = Some st"
| "run fmt tmo (ev # evs) st =
     (case step fmt tmo ev st of None \<Rightarrow> None | Some st' \<Rightarrow> run fmt tmo evs st')"

text \<open>The state in which \<open>handleRequest\<close> starts on a request with header \<open>hdr\<close>.\<close>

definition handleRequest_init :: "Header \<Rightarrow> 'v \<Rightarrow> 'v handler_state" where
  "handleRequest_init hdr v0 =
     \<lparr>req_h = hdr, replyv = v0, main = AtSelect, worker = Calling, wire = []\<rparr>"

text \<open>The response of a method that returned \<open>err\<close> with reply \<open>v\<close>, as the worker sends it.\<close>

definition methodResponse :: "Header \<Rightarrow> error option \<Rightarrow> 'v \<Rightarrow> Header \<times> 'v body" where
  "methodResponse hdr err v =
     (case err of Some e \<Rightarrow> (hdr\<lparr>Error := e\<rparr>, invalidRequest) | None \<Rightarrow> (hdr, ReplyBody v))"





subsection \<open>xclient/xclient.go\<close>

text \<open>
  \<open>Broadcast\<close> starts one goroutine for each server; each calls \<open>xc.call\<close> with a reply of its
  own and then, holding the mutex \<open>mu\<close>, updates \<open>e\<close> (here \<open>e_err\<close>), \<open>replyDone\<close> and the
  caller's reply.  The state under the mutex is \<open>broadcast_state\<close>; the caller's \<open>reply\<close> is \<open>None\<close> when it is nil
  and otherwise the value it points to; \<open>cancelled\<close> records that \<open>cancel()\<close> was called.
\<close>

record 'v broadcast_state =
  e_err :: "error option"
  replyDone :: bool
  reply :: "'v option"
  cancelled :: bool

text \<open>
  The part of a goroutine under the mutex; \<open>err\<close> is what \<open>xc.call\<close> returned and
  \<open>clonedReply\<close> the value of the goroutine's own reply after the call.
\<close>

definition broadcastStep :: "error option \<times> 'v \<Rightarrow> 'v broadcast_state \<Rightarrow> 'v broadcast_state" where
  "broadcastStep res st =
     (case res of (err, clonedReply) \<Rightarrow>
        let st1 = (if err \<noteq> None \<and> e_err st = None then st\<lparr>e_err := err, cancelled := True\<rparr> else st)
        in if err \<noteq> None \<and> \<not> replyDone st1
           then st1\<lparr>reply := Some clonedReply, replyDone := True\<rparr>
           else st1)"

text \<open>
  \<open>Broadcast\<close>.  \<open>getAll\<close> is the result of \<open>xc.d.GetAll()\<close>; \<open>call i rpcAddr\<close> is the result of
  \<open>xc.call\<close> in the goroutine of the \<open>i\<close>-th server, whose address is \<open>rpcAddr\<close>; \<open>order\<close> lists
  the goroutines in the order in which they take the mutex, each goroutine once.  The
  result is the returned error and the caller's reply.
\<close>

definition Broadcast ::
  "error + string list \<Rightarrow> (nat \<Rightarrow> string \<Rightarrow> error option \<times> 'v) \<Rightarrow> nat list \<Rightarrow> 'v option \<Rightarrow>
   error option \<times> 'v option" where
  "Broadcast getAll call order rep =
     (case getAll of
        Inl err \<Rightarrow> (Some err, rep)
      | Inr srvs \<Rightarrow>
          (let st = fold (\<lambda>i. broadcastStep (call i (srvs ! i))) order
                      \<lparr>e_err = None, replyDone = (rep = None), reply = rep, cancelled = False\<rparr>
           in (e_err st, reply st)))"

text \<open>A schedule of the goroutines of \<open>Broadcast\<close> over \<open>n\<close> servers: each of them once.\<close>

definition schedule :: "nat \<Rightarrow> nat list \<Rightarrow> bool" where
  "schedule n order = (distinct order \<and> set order = {0..<n})"

text \<open>The first error in a list of results, nil when there is none.\<close>

definition firstError :: "error option list \<Rightarrow> error option" where
  "firstError errs = (case dropWhile (\<lambda>x. x = None) errs of [] \<Rightarrow> None | x # _ \<Rightarrow> x)"

subsection \<open>client.go\<close>

text \<open>
  The client works on objects that several goroutines share through pointers: the \<open>Call\<close>s,
  which the caller and the map \<open>pending\<close> both hold, and the channels \<open>Done\<close>.  The model keeps
  them in a store: \<open>calls\<close> and \<open>chans\<close> are the allocated calls and channels, a pointer is an
  index, and allocation appends.  A channel holds its capacity, every value sent on it
  (oldest first), and how many of them have been received; its buffer is the rest.  The
  codec \<open>cc\<close> is outside: what it reads and the results of its \<open>Write\<close> and \<open>Close\<close> are
  arguments of the functions, \<open>written\<close> collects the frames written, and \<open>ccClosed\<close> records
  that \<open>cc.Close()\<close> was called.
\<close>

record chan =
  cap :: nat
  sent :: "callref list"
  taken :: nat

record Client =
  opt :: Option
  header :: Header
  seq :: "64 word"
  pending :: "(64 word \<times> callref) list"
  closing :: bool
  shutdown :: bool

record 'v world =
  client :: Client
  calls :: "'v Call list"
  chans :: "chan list"
  written :: "(Header \<times> 'v) list"
  ccClosed :: bool

text \<open>
  A function of the client returns, or waits on a channel (\<open>Blocked\<close>: the channel is full
  for a send, empty for a receive, and the function goes on only after another goroutine has
  received from it or sent on it), or panics.  \<open>Go\<close> refuses a channel of capacity 0, so the
  channel \<open>Done\<close> of a call always has a buffer.
\<close>

datatype 'a result = Panic string | Blocked | Returns 'a

definition ErrShutdown :: error where
  "ErrShutdown = ''connection is shut down''"

text \<open>A send on a channel: it waits while the buffer is full.\<close>

definition buffered :: "chan \<Rightarrow> nat" where
  "buffered ch = length (sent ch) - taken ch"

definition chanSend :: "chanref \<Rightarrow> callref \<Rightarrow> 'v world \<Rightarrow> 'v world result" where
  "chanSend ch c st =
     (if ch < length (chans st) \<and> buffered (chans st ! ch) < cap (chans st ! ch)
      then Returns (st\<lparr>chans := (chans st)[ch := (chans st ! ch)\<lparr>sent := sent (chans st ! ch) @ [c]\<rparr>]\<rparr>)
      else Blocked)"

text \<open>A receive from a channel: it waits while the buffer is empty.\<close>

definition chanRecv :: "chanref \<Rightarrow> 'v world \<Rightarrow> (callref \<times> 'v world) result" where
  "chanRecv ch st =
     (if ch < length (chans st) \<and> taken (chans st ! ch) < length (sent (chans st ! ch))
      then Returns (sent (chans st ! ch) ! taken (chans st ! ch),
                    st\<lparr>chans := (chans st)[ch := (chans st ! ch)\<lparr>taken := Suc (taken (chans st ! ch))\<rparr>]\<rparr>)
      else Blocked)"

text \<open>\<open>(*Call).done\<close>, here \<open>call_done\<close>.\<close>

definition call_done :: "callref \<Rightarrow> 'v world \<Rightarrow> 'v world result" where
  "call_done c st = chanSend (Done (calls st ! c)) c st"

text \<open>The assignment \<open>call.Error = err\<close>.\<close>

definition setError :: "callref \<Rightarrow> error option \<Rightarrow> 'v world \<Rightarrow> 'v world" where
  "setError c err st = st\<lparr>calls := (calls st)[c := (calls st ! c)\<lparr>Call.Error := err\<rparr>]\<rparr>"



definition registerCall :: "callref \<Rightarrow> 'v world \<Rightarrow> (error + 64 word) \<times> 'v world" where
  "registerCall c st =
     (if closing (client st) \<or> shutdown (client st) then (Inl ErrShutdown, st)
      else (Inr (seq (client st)),
            st\<lparr>calls := (calls st)[c := (calls st ! c)\<lparr>Call.Seq := seq (client st)\<rparr>],
               client := (client st)\<lparr>pending := AList.update (seq (client st)) c (pending (client st)),
                                      seq := seq (client st) + 1\<rparr>\<rparr>))"

definition removeCall :: "64 word \<Rightarrow> 'v world \<Rightarrow> callref option \<times> 'v world" where
  "removeCall s st =
     (map_of (pending (client st)) s,
      st\<lparr>client := (client st)\<lparr>pending := AList.delete s (pending (client st))\<rparr>\<rparr>)"

text \<open>The loop of \<open>terminateCalls\<close> over the entries of \<open>pending\<close>, and \<open>terminateCalls\<close>.\<close>

fun terminateLoop :: "error \<Rightarrow> (64 word \<times> callref) list \<Rightarrow> 'v world \<Rightarrow> 'v world result" where
  "terminateLoop err [] st = Returns st"
| "terminateLoop err (p # ps) st =
     (case call_done (snd p) (setError (snd p) (Some err) st) of
        Returns st' \<Rightarrow> terminateLoop err ps st'
      | Blocked \<Rightarrow> Blocked
      | Panic m \<Rightarrow> Panic m)"




text \<open>\<open>newClientCodec\<close>: the client that it builds, in a store without calls or channels.\<close>

definition newClientCodec :: "Option \<Rightarrow> 'v world" where
  "newClientCodec op =
     \<lparr>client = \<lparr>opt = op, header = \<lparr>ServiceMethod = [], Seq = 0, Error = []\<rparr>, seq = 1,
                 pending = [], closing = False, shutdown = False\<rparr>,
      calls = [], chans = [], written = [], ccClosed = False\<rparr>"

text \<open>
  \<open>parseOptions\<close>; a \<open>*Option\<close> that is nil is \<open>None\<close>.  The equations follow the order of
  the tests of the source.
\<close>

fun parseOptions :: "Option option list \<Rightarrow> error + Option" where
  "parseOptions [] = Inr DefaultOption"
| "parseOptions (None # opts) = Inr DefaultOption"
| "parseOptions (Some op # o2 # opts) = Inl ''number of options is more than 1''"
| "parseOptions [Some op] =
     Inr (op\<lparr>oMagicNumber := oMagicNumber DefaultOption,
             CodecType := (if CodecType op = [] then CodecType DefaultOption else CodecType op)\<rparr>)"

text \<open>
  What \<open>Dial\<close> and \<open>NewClient\<close> do on the network, in order: \<open>net.Dial\<close>, the option written
  on the connection by the JSON encoder, \<open>conn.Close()\<close>.
\<close>

datatype effect = NetDial string string | SendOption Option | ConnClose

text \<open>\<open>NewClient\<close>; \<open>enc\<close> is the result of \<open>json.NewEncoder(conn).Encode(opt)\<close>.\<close>

definition NewClient :: "error option \<Rightarrow> Option \<Rightarrow> (error + 'v world) \<times> effect list" where
  "NewClient enc op =
     (if \<not> NewCodecFuncMap (CodecType op)
      then (Inl (''invalid codec type '' @ CodecType op), [])
      else case enc of
             Some err \<Rightarrow> (Inl err, [ConnClose])
           | None \<Rightarrow> (Inr (newClientCodec op), [SendOption op]))"

text \<open>\<open>Dial\<close>; \<open>nd\<close> is the error of \<open>net.Dial\<close>.  The deferred function closes the connection
  when no client is returned.\<close>

definition Dial ::
  "string \<Rightarrow> string \<Rightarrow> Option option list \<Rightarrow> error option \<Rightarrow> error option \<Rightarrow>
   (error + 'v world) \<times> effect list" where
  "Dial network address opts nd enc =
     (case parseOptions opts of
        Inl err \<Rightarrow> (Inl err, [])
      | Inr op \<Rightarrow>
          (case nd of
             Some err \<Rightarrow> (Inl err, [NetDial network address])
           | None \<Rightarrow>
               (case NewClient enc op of
                  (Inl err, effs) \<Rightarrow> (Inl err, NetDial network address # effs @ [ConnClose])
                | (Inr cl, effs) \<Rightarrow> (Inr cl, NetDial network address # effs))))"

text \<open>\<open>send\<close>; \<open>wr\<close> is the result of \<open>client.cc.Write\<close>.\<close>

definition send :: "callref \<Rightarrow> error option \<Rightarrow> 'v world \<Rightarrow> 'v world result" where
  "send c wr st =
     (case registerCall c st of
        (Inl err, st1) \<Rightarrow> call_done c (setError c (Some err) st1)
      | (Inr s, st1) \<Rightarrow>
          (let st2 = st1\<lparr>client := (client st1)\<lparr>header :=
                       \<lparr>ServiceMethod = Call.ServiceMethod (calls st1 ! c), Seq = s, Error = []\<rparr>\<rparr>\<rparr>
           in case wr of
                None \<Rightarrow> Returns (st2\<lparr>written := written st2 @ [(header (client st2), Args (calls st2 ! c))]\<rparr>)
              | Some err \<Rightarrow>
                  (case removeCall s st2 of
                     (None, st3) \<Rightarrow> Returns st3
                   | (Some c', st3) \<Rightarrow> call_done c' (setError c' (Some err) st3))))"

text \<open>\<open>make(chan *Call, n)\<close>: a new channel in the store.\<close>

definition makeChan :: "nat \<Rightarrow> 'v world \<Rightarrow> 'v world" where
  "makeChan n st = st\<lparr>chans := chans st @ [\<lparr>cap = n, sent = [], taken = 0\<rparr>]\<rparr>"

text \<open>
  \<open>Go\<close>; \<open>dn\<close> is the argument \<open>done\<close>, \<open>None\<close> when it is nil and otherwise a channel of the
  store.  The result is the \<open>*Call\<close> returned.
\<close>

definition Go ::
  "string \<Rightarrow> 'v \<Rightarrow> 'v \<Rightarrow> chanref option \<Rightarrow> error option \<Rightarrow> 'v world \<Rightarrow> (callref \<times> 'v world) result" where
  "Go serviceMethod args rep dn wr st =
     (case (case dn of
              None \<Rightarrow> Returns (length (chans st), makeChan 10 st)
            | Some ch \<Rightarrow>
                if cap (chans st ! ch) = 0 then Panic ''rpc client: done channel is unbuffered''
                else Returns (ch, st)) of
        Panic m \<Rightarrow> Panic m
      | Blocked \<Rightarrow> Blocked
      | Returns (ch, st1) \<Rightarrow>
          (let c = length (calls st1);
               st2 = st1\<lparr>calls := calls st1 @
                       [\<lparr>Call.Seq = 0, Call.ServiceMethod = serviceMethod, Args = args, Reply = rep,
                         Call.Error = None, Done = ch\<rparr>]\<rparr>
           in case send c wr st2 of
                Returns st3 \<Rightarrow> Returns (c, st3)
              | Blocked \<Rightarrow> Blocked
              | Panic m \<Rightarrow> Panic m))"

text \<open>
  \<open>Call\<close> is \<open>Go\<close> on a new channel of capacity 1, then a receive from the channel \<open>Done\<close> of the
  call that \<open>Go\<close> returned, then the field \<open>Error\<close> of the call received.  \<open>Call_Go\<close> is the
  first part and \<open>Call_wait\<close> the rest; between them the other goroutines run (the loop
  of \<open>receive\<close>, other callers), which is the argument \<open>others\<close> of \<open>Call\<close>.
\<close>

definition Call_Go ::
  "string \<Rightarrow> 'v \<Rightarrow> 'v \<Rightarrow> error option \<Rightarrow> 'v world \<Rightarrow> (callref \<times> 'v world) result" where
  "Call_Go serviceMethod args rep wr st =
     Go serviceMethod args rep (Some (length (chans st))) wr (makeChan 1 st)"

definition Call_wait :: "callref \<Rightarrow> 'v world \<Rightarrow> (error option \<times> 'v world) result" where
  "Call_wait c st =
     (case chanRecv (Done (calls st ! c)) st of
        Returns (c', st') \<Rightarrow> Returns (Call.Error (calls st' ! c'), st')
      | Blocked \<Rightarrow> Blocked
      | Panic m \<Rightarrow> Panic m)"

definition Call ::
  "string \<Rightarrow> 'v \<Rightarrow> 'v \<Rightarrow> error option \<Rightarrow> ('v world \<Rightarrow> 'v world result) \<Rightarrow> 'v world \<Rightarrow>
   (error option \<times> 'v world) result" where
  "Call serviceMethod args rep wr others st =
     (case Call_Go serviceMethod args rep wr st of
        Returns (c, st1) \<Rightarrow>
          (case others st1 of
             Returns st2 \<Rightarrow> Call_wait c st2
           | Blocked \<Rightarrow> Blocked
           | Panic m \<Rightarrow> Panic m)
      | Blocked \<Rightarrow> Blocked
      | Panic m \<Rightarrow> Panic m)"

text \<open>
  How often the call \<open>c\<close> has been sent on a channel, all channels together: the number of
  its completion signals.
\<close>

definition signals :: "'v world \<Rightarrow> callref \<Rightarrow> nat" where
  "signals st c = sum_list (map (\<lambda>ch. count_list (sent ch) c) (chans st))"

text \<open>
  The invariant of the client: the calls in \<open>pending\<close> are different calls of the store, every
  call has its channel \<open>Done\<close> in the store, only calls of the store have been sent on
  channels, and while \<open>shutdown\<close> is unset no call in \<open>pending\<close> has been signalled.
\<close>

definition wf :: "'v world \<Rightarrow> bool" where
  "wf st =
     (distinct (map snd (pending (client st))) \<and>
      list_all (\<lambda>p. snd p < length (calls st)) (pending (client st)) \<and>
      list_all (\<lambda>cl. Done cl < length (chans st)) (calls st) \<and>
      list_all (\<lambda>ch. list_all (\<lambda>c. c < length (calls st)) (sent ch)) (chans st) \<and>
      (\<not> shutdown (client st) \<longrightarrow> list_all (\<lambda>p. signals st (snd p) = 0) (pending (client st))))"


text \<open>The fields of a call that \<open>send\<close> and \<open>done\<close> leave alone.\<close>

definition sameCall :: "'v Call \<Rightarrow> 'v Call \<Rightarrow> bool" where
  "sameCall a b =
     (Call.ServiceMethod a = Call.ServiceMethod b \<and> Args a = Args b \<and> Reply a = Reply b \<and>
      Done a = Done b)"

text \<open>
  The call \<open>c\<close> of the store carries the service method, the arguments, the reply and the
  channel given.
\<close>

definition madeCall :: "'v world \<Rightarrow> callref \<Rightarrow> string \<Rightarrow> 'v \<Rightarrow> 'v \<Rightarrow> chanref \<Rightarrow> bool" where
  "madeCall st c serviceMethod args rep ch =
     (c < length (calls st) \<and> Call.ServiceMethod (calls st ! c) = serviceMethod \<and>
      Args (calls st ! c) = args \<and> Reply (calls st ! c) = rep \<and> Done (calls st ! c) = ch)"




text \<open>
  Two states of a client, for the examples: \<open>pendingExample\<close> after \<open>Call\<close> has sent the request
  \<open>Foo.Sleep\<close> on a new client, before any response; \<open>deadExample\<close> after \<open>receive\<close> has then
  read the error \<open>EOF\<close>.
\<close>

definition pendingExample :: "nat world" where
  "pendingExample =
     \<lparr>client = \<lparr>opt = DefaultOption,
                 header = \<lparr>ServiceMethod = ''Foo.Sleep'', Seq = 1, Error = []\<rparr>,
                 seq = 2, pending = [(1, 0)], closing = False, shutdown = False\<rparr>,
      calls = [\<lparr>Call.Seq = 1, Call.ServiceMethod = ''Foo.Sleep'', Args = 5, Reply = 0,
                Call.Error = None, Done = 0\<rparr>],
      chans = [\<lparr>cap = 1, sent = [], taken = 0\<rparr>],
      written = [(\<lparr>ServiceMethod = ''Foo.Sleep'', Seq = 1, Error = []\<rparr>, 5)],
      ccClosed = False\<rparr>"






section \<open>Facts\<close>

subsection \<open>Facts about the registry\<close>

lemma delete_filter: "AList.delete k al = filter (\<lambda>e. fst e \<noteq> k) al"
  by (induction al) auto

lemma fold_aliveStep:
  "fold (aliveStep tmo clock) es (alive, srv) =
     (alive @ map fst (filter (isAlive tmo clock) es),
      filter (\<lambda>e. fst e \<notin> fst ` {d \<in> set es. \<not> isAlive tmo clock d}) srv)"
proof (induction es arbitrary: alive srv)
  case Nil
  then show ?case by simp
next
  case (Cons e es)
  obtain addr s where e: "e = (addr, s)" by (cases e)
  show ?case
  proof (cases "isAlive tmo clock e")
    case True
    then have "aliveStep tmo clock e (alive, srv) = (alive @ [addr], srv)"
      by (simp add: aliveStep_def isAlive_def e)
    with True show ?thesis
      by (simp add: Cons.IH e) (rule filter_cong, auto)
  next
    case False
    then have "aliveStep tmo clock e (alive, srv) = (alive, AList.delete addr srv)"
      by (simp add: aliveStep_def isAlive_def e)
    with False show ?thesis
      by (simp add: Cons.IH e delete_filter) (rule filter_cong, simp, force)
  qed
qed

lemma filter_dead_self:
  assumes "distinct (map fst es)"
  shows "filter (\<lambda>e. fst e \<notin> fst ` {d \<in> set es. \<not> P d}) es = filter P es"
proof (rule filter_cong)
  fix e assume "e \<in> set es"
  with assms have "\<And>d. d \<in> set es \<Longrightarrow> fst d = fst e \<Longrightarrow> d = e"
    by (meson eq_key_imp_eq_value prod.expand distinct_map inj_onD)
  with \<open>e \<in> set es\<close> show "(fst e \<notin> fst ` {d \<in> set es. \<not> P d}) = P e"
    by auto
qed simp

lemma aliveServers_eq:
  assumes "distinct (map fst (servers r))"
  shows "aliveServers r clock =
    (sort (map fst (filter (isAlive (timeout r) clock) (servers r))),
     r\<lparr>servers := filter (isAlive (timeout r) clock) (servers r)\<rparr>)"
  by (simp add: aliveServers_def fold_aliveStep filter_dead_self [OF assms])

lemma map_of_filter_keys:
  assumes "distinct (map fst es)"
  shows "map_of (filter P es) a =
    (case map_of es a of None \<Rightarrow> None | Some s \<Rightarrow> if P (a, s) then Some s else None)"
proof -
  have d: "distinct (map fst (filter P es))"
    using assms by (rule distinct_map_filter)
  have "map_of (filter P es) a = Some s \<longleftrightarrow> map_of es a = Some s \<and> P (a, s)" for s
    unfolding map_of_eq_Some_iff [OF d] map_of_eq_Some_iff [OF assms] by simp
  then show ?thesis
    by (cases "map_of es a") (simp_all add: map_of_eq_None_iff [symmetric] del: map_of_eq_None_iff, metis not_Some_eq, metis not_Some_eq)
qed

lemma set_update_cases: "e \<in> set (AList.update k v al) \<Longrightarrow> e = (k, v) \<or> e \<in> set al"
  by (induction al) (auto split: if_splits)

lemma registry_ok_putServer: "registry_ok r \<Longrightarrow> registry_ok (putServer r addr now)"
  by (auto simp: registry_ok_def putServer_def distinct_update list_all_iff
      split: option.splits dest!: set_update_cases map_of_SomeD)

lemma registry_ok_New: "registry_ok (New tmo)"
  by (simp add: registry_ok_def New_def)

lemma putServer_entry:
  assumes "registry_ok r"
  shows "map_of (servers (putServer r addr now)) =
    (map_of (servers r))(addr \<mapsto> \<lparr>Addr = addr, start = now\<rparr>)"
proof (cases "map_of (servers r) addr")
  case None
  then show ?thesis
    by (simp add: putServer_def update_conv')
next
  case (Some s)
  then have "(addr, s) \<in> set (servers r)"
    by (rule map_of_SomeD)
  with assms have "Addr s = addr"
    by (auto simp: registry_ok_def list_all_iff)
  then have "s\<lparr>start := now\<rparr> = \<lparr>Addr = addr, start = now\<rparr>"
    by (cases s) simp
  with Some show ?thesis
    by (simp add: putServer_def update_conv')
qed

lemma registry_ok_aliveServers:
  assumes "registry_ok r"
  shows "registry_ok (snd (aliveServers r clock))"
proof -
  from assms have d: "distinct (map fst (servers r))"
    by (simp add: registry_ok_def)
  from assms d show ?thesis
    by (simp add: aliveServers_eq [OF d] registry_ok_def distinct_map_filter list_all_iff)
qed

lemma registry_ok_ServeHTTP:
  "registry_ok r \<Longrightarrow> registry_ok (fst (registry_ServeHTTP r w req clock now))"
  using registry_ok_aliveServers [of r clock]
  by (auto simp: registry_ServeHTTP_def Let_def registry_ok_putServer split: prod.splits)

text \<open>
  Claim C10.  In a registry whose timeout is 0, \<open>aliveServers\<close> answers the sorted list of
  every registered address and deletes no entry, whatever the clock reads: no server is
  ever dead.
\<close>

theorem aliveServers_timeout0:
  "timeout r = 0 \<Longrightarrow> aliveServers r clock = (sort (map fst (servers r)), r)"
  by (simp add: aliveServers_def fold_aliveStep isAlive_def)

theorem aliveServers_timeout0_witness:
  "timeout (putServer (putServer (New 0) ''b'' 1) ''a'' 2) = 0 \<and>
   aliveServers (putServer (putServer (New 0) ''b'' 1) ''a'' 2) (\<lambda>_. 1000000) =
     ([''a'', ''b''], putServer (putServer (New 0) ''b'' 1) ''a'' 2)"
  using aliveServers_timeout0 [of "putServer (putServer (New 0) ''b'' 1) ''a'' 2" "\<lambda>_. 1000000"]
  by (simp add: putServer_def New_def)

text \<open>
  Claim C5, as the code has it.  On a registry whose map is well formed:
  a GET sets the response header \<open>X-Geerpc-Servers\<close> to the comma-separated, sorted,
  duplicate-free list of exactly the addresses whose entry has \<open>timeout = 0\<close> or
  \<open>start + timeout\<close> after the clock, and keeps exactly these entries in the map;
  a POST reads the address from the request header \<open>X-Geerpc-Server\<close>, answers 500 and
  leaves the registry alone when it is empty, and otherwise stores the item
  \<open>{address, now}\<close> under the address, the other entries unchanged;
  any other method is answered 405 and leaves the registry alone.
\<close>

theorem registry_ServeHTTP_spec:
  assumes ok: "registry_ok r"
  shows "(Method req = ''GET'' \<longrightarrow>
           (\<exists>alive. registry_ServeHTTP r w req clock now =
              (r\<lparr>servers := filter (\<lambda>e. fst e \<in> set alive) (servers r)\<rparr>,
               w\<lparr>RespHeader := (RespHeader w)(''X-Geerpc-Servers'' \<mapsto> Join alive '','')\<rparr>) \<and>
              sorted alive \<and> distinct alive \<and>
              set alive = {a. \<exists>s. map_of (servers r) a = Some s \<and>
                                  (timeout r = 0 \<or> clock a < start s + timeout r)})) \<and>
         (Method req = ''POST'' \<longrightarrow>
           (if HeaderGet (ReqHeader req) ''X-Geerpc-Server'' = []
            then registry_ServeHTTP r w req clock now = (r, w\<lparr>Status := Some 500\<rparr>)
            else \<exists>r'. registry_ServeHTTP r w req clock now = (r', w) \<and> registry_ok r' \<and>
                   timeout r' = timeout r \<and>
                   map_of (servers r') = (map_of (servers r))
                     (HeaderGet (ReqHeader req) ''X-Geerpc-Server'' \<mapsto>
                       \<lparr>Addr = HeaderGet (ReqHeader req) ''X-Geerpc-Server'', start = now\<rparr>))) \<and>
         (Method req \<noteq> ''GET'' \<and> Method req \<noteq> ''POST'' \<longrightarrow>
           registry_ServeHTTP r w req clock now = (r, w\<lparr>Status := Some 405\<rparr>))"
proof (intro conjI impI)
  assume get: "Method req = ''GET''"
  let ?keep = "filter (isAlive (timeout r) clock) (servers r)"
  let ?alive = "sort (map fst ?keep)"
  from ok have d: "distinct (map fst (servers r))"
    by (simp add: registry_ok_def)
  have dk: "distinct (map fst ?keep)"
    using d by (rule distinct_map_filter)
  have mem: "fst e \<in> set ?alive \<longleftrightarrow> isAlive (timeout r) clock e" if "e \<in> set (servers r)" for e
  proof
    assume "fst e \<in> set ?alive"
    then obtain d' where d': "d' \<in> set (servers r)" "isAlive (timeout r) clock d'" "fst d' = fst e"
      by auto
    with d that have "d' = e"
      by (meson distinct_map inj_onD)
    with d' show "isAlive (timeout r) clock e" by simp
  next
    assume "isAlive (timeout r) clock e"
    with that show "fst e \<in> set ?alive" by auto
  qed
  have keep: "filter (\<lambda>e. fst e \<in> set ?alive) (servers r) = ?keep"
    using mem by (intro filter_cong refl) blast
  have set_alive: "set ?alive = {a. \<exists>s. map_of (servers r) a = Some s \<and>
                                  (timeout r = 0 \<or> clock a < start s + timeout r)}"
    using d by (auto simp: isAlive_def map_of_eq_Some_iff intro: rev_image_eqI)
  have "registry_ServeHTTP r w req clock now =
      (r\<lparr>servers := ?keep\<rparr>, w\<lparr>RespHeader := (RespHeader w)(''X-Geerpc-Servers'' \<mapsto> Join ?alive '','')\<rparr>)"
    by (simp add: registry_ServeHTTP_def get aliveServers_eq [OF d])
  with keep set_alive dk show "\<exists>alive. registry_ServeHTTP r w req clock now =
              (r\<lparr>servers := filter (\<lambda>e. fst e \<in> set alive) (servers r)\<rparr>,
               w\<lparr>RespHeader := (RespHeader w)(''X-Geerpc-Servers'' \<mapsto> Join alive '','')\<rparr>) \<and>
              sorted alive \<and> distinct alive \<and>
              set alive = {a. \<exists>s. map_of (servers r) a = Some s \<and>
                                  (timeout r = 0 \<or> clock a < start s + timeout r)}"
    by (intro exI [of _ ?alive]) (simp add: distinct_map)
next
  assume post: "Method req = ''POST''"
  then have ng: "Method req \<noteq> ''GET''" by simp
  show "if HeaderGet (ReqHeader req) ''X-Geerpc-Server'' = []
            then registry_ServeHTTP r w req clock now = (r, w\<lparr>Status := Some 500\<rparr>)
            else \<exists>r'. registry_ServeHTTP r w req clock now = (r', w) \<and> registry_ok r' \<and>
                   timeout r' = timeout r \<and>
                   map_of (servers r') = (map_of (servers r))
                     (HeaderGet (ReqHeader req) ''X-Geerpc-Server'' \<mapsto>
                       \<lparr>Addr = HeaderGet (ReqHeader req) ''X-Geerpc-Server'', start = now\<rparr>)"
    using ok
    by (simp add: registry_ServeHTTP_def post StatusInternalServerError_def
        registry_ok_putServer putServer_entry) (simp add: putServer_def split: option.splits)
next
  assume "Method req \<noteq> ''GET'' \<and> Method req \<noteq> ''POST''"
  then show "registry_ServeHTTP r w req clock now = (r, w\<lparr>Status := Some 405\<rparr>)"
    by (simp add: registry_ServeHTTP_def StatusMethodNotAllowed_def)
qed

theorem registry_ServeHTTP_spec_witness:
  "registry_ok \<lparr>timeout = 5, servers = [(''b'', \<lparr>Addr = ''b'', start = 10\<rparr>),
      (''a'', \<lparr>Addr = ''a'', start = 3\<rparr>), (''c'', \<lparr>Addr = ''c'', start = 9\<rparr>)]\<rparr> \<and>
   registry_ServeHTTP \<lparr>timeout = 5, servers = [(''b'', \<lparr>Addr = ''b'', start = 10\<rparr>),
      (''a'', \<lparr>Addr = ''a'', start = 3\<rparr>), (''c'', \<lparr>Addr = ''c'', start = 9\<rparr>)]\<rparr>
      newResponseWriter \<lparr>Method = ''GET'', ReqHeader = Map.empty\<rparr> (\<lambda>_. 12) 12 =
     (\<lparr>timeout = 5, servers = [(''b'', \<lparr>Addr = ''b'', start = 10\<rparr>), (''c'', \<lparr>Addr = ''c'', start = 9\<rparr>)]\<rparr>,
      newResponseWriter\<lparr>RespHeader := [''X-Geerpc-Servers'' \<mapsto> ''b,c'']\<rparr>) \<and>
   registry_ServeHTTP \<lparr>timeout = 5, servers = [(''b'', \<lparr>Addr = ''b'', start = 10\<rparr>),
      (''a'', \<lparr>Addr = ''a'', start = 3\<rparr>), (''c'', \<lparr>Addr = ''c'', start = 9\<rparr>)]\<rparr>
      newResponseWriter \<lparr>Method = ''POST'', ReqHeader = [''X-Geerpc-Server'' \<mapsto> ''a'']\<rparr> (\<lambda>_. 12) 12 =
     (\<lparr>timeout = 5, servers = [(''b'', \<lparr>Addr = ''b'', start = 10\<rparr>),
      (''a'', \<lparr>Addr = ''a'', start = 12\<rparr>), (''c'', \<lparr>Addr = ''c'', start = 9\<rparr>)]\<rparr>, newResponseWriter) \<and>
   registry_ServeHTTP \<lparr>timeout = 5, servers = [(''b'', \<lparr>Addr = ''b'', start = 10\<rparr>),
      (''a'', \<lparr>Addr = ''a'', start = 3\<rparr>), (''c'', \<lparr>Addr = ''c'', start = 9\<rparr>)]\<rparr>
      newResponseWriter \<lparr>Method = ''PUT'', ReqHeader = Map.empty\<rparr> (\<lambda>_. 12) 12 =
     (\<lparr>timeout = 5, servers = [(''b'', \<lparr>Addr = ''b'', start = 10\<rparr>),
      (''a'', \<lparr>Addr = ''a'', start = 3\<rparr>), (''c'', \<lparr>Addr = ''c'', start = 9\<rparr>)]\<rparr>,
      newResponseWriter\<lparr>Status := Some 405\<rparr>)"
  using registry_ServeHTTP_spec [of "\<lparr>timeout = 5, servers = [(''b'', \<lparr>Addr = ''b'', start = 10\<rparr>),
      (''a'', \<lparr>Addr = ''a'', start = 3\<rparr>), (''c'', \<lparr>Addr = ''c'', start = 9\<rparr>)]\<rparr>"
      "\<lparr>Method = ''PUT'', ReqHeader = Map.empty\<rparr>" newResponseWriter "\<lambda>_. 12" 12]
   registry_ServeHTTP_spec [of "\<lparr>timeout = 5, servers = [(''b'', \<lparr>Addr = ''b'', start = 10\<rparr>),
      (''a'', \<lparr>Addr = ''a'', start = 3\<rparr>), (''c'', \<lparr>Addr = ''c'', start = 9\<rparr>)]\<rparr>"
      "\<lparr>Method = ''GET'', ReqHeader = Map.empty\<rparr>" newResponseWriter "\<lambda>_. 12" 12]
   registry_ServeHTTP_spec [of "\<lparr>timeout = 5, servers = [(''b'', \<lparr>Addr = ''b'', start = 10\<rparr>),
      (''a'', \<lparr>Addr = ''a'', start = 3\<rparr>), (''c'', \<lparr>Addr = ''c'', start = 9\<rparr>)]\<rparr>"
      "\<lparr>Method = ''POST'', ReqHeader = [''X-Geerpc-Server'' \<mapsto> ''a'']\<rparr>" newResponseWriter "\<lambda>_. 12" 12]
  by (simp add: registry_ok_def registry_ServeHTTP_def aliveServers_def aliveStep_def
      HeaderGet_def putServer_def StatusMethodNotAllowed_def newResponseWriter_def Let_def)

text \<open>
  Claim C5 as stated fails: on a registry with timeout 0 holding \<open>a\<close> last seen at 0, a GET at
  time 10 sets no header \<open>X-Servers\<close>; it sets \<open>X-Geerpc-Servers\<close>, to a list that holds \<open>a\<close>
  although \<open>0 + 0 > 10\<close> is false; and a POST whose address is in the header \<open>X-Server\<close> is
  answered 500.
\<close>

theorem registry_ServeHTTP_counterexample:
  "RespHeader (snd (registry_ServeHTTP \<lparr>timeout = 0, servers = [(''a'', \<lparr>Addr = ''a'', start = 0\<rparr>)]\<rparr>
      newResponseWriter \<lparr>Method = ''GET'', ReqHeader = Map.empty\<rparr> (\<lambda>_. 10) 10)) ''X-Servers'' = None \<and>
   RespHeader (snd (registry_ServeHTTP \<lparr>timeout = 0, servers = [(''a'', \<lparr>Addr = ''a'', start = 0\<rparr>)]\<rparr>
      newResponseWriter \<lparr>Method = ''GET'', ReqHeader = Map.empty\<rparr> (\<lambda>_. 10) 10)) ''X-Geerpc-Servers'' = Some ''a'' \<and>
   \<not> (0 + 0 > (10::int)) \<and>
   statusCode (snd (registry_ServeHTTP \<lparr>timeout = 0, servers = [(''a'', \<lparr>Addr = ''a'', start = 0\<rparr>)]\<rparr>
      newResponseWriter \<lparr>Method = ''POST'', ReqHeader = [''X-Server'' \<mapsto> ''b'']\<rparr> (\<lambda>_. 10) 10)) = 500"
  by (simp add: registry_ServeHTTP_def aliveServers_def aliveStep_def newResponseWriter_def
      HeaderGet_def statusCode_def StatusInternalServerError_def)

subsection \<open>Facts about the server\<close>

lemma Register_fresh:
  "isExported (typeName r) \<Longrightarrow> serviceMap server (typeName r) = None \<Longrightarrow>
   Register isExported server r =
     Inr (None, server\<lparr>serviceMap := (serviceMap server)(typeName r \<mapsto>
        \<lparr>name = typeName r, rcvr = r, methodMap = registerMethods isExported r\<rparr>)\<rparr>)"
  by (simp add: Register_def newService_def)

lemma Register_serviceMap:
  assumes "Register isExported server r = Inr (err, server')"
  shows "isExported (typeName r)"
    and "serviceMap server' (typeName r) \<noteq> None"
    and "n \<noteq> typeName r \<Longrightarrow> serviceMap server' n = serviceMap server n"
  using assms by (auto simp: Register_def newService_def split: if_splits option.splits)

lemma reachableServer_exported:
  "reachableServer isExported server \<Longrightarrow> serviceMap server n = Some s \<Longrightarrow> isExported n"
proof (induction arbitrary: s rule: reachableServer.induct)
  case new
  then show ?case by (simp add: NewServer_def)
next
  case (reg server r err server')
  show ?case
  proof (cases "n = typeName r")
    case True
    with reg.hyps(2) show ?thesis
      by (simp add: Register_serviceMap(1))
  next
    case False
    with reg.hyps(2) reg.prems have "serviceMap server n = Some s"
      by (simp add: Register_serviceMap(3))
    then show ?thesis
      by (rule reg.IH)
  qed
qed

text \<open>
  Claim C7.  On every server, a \<open>Register\<close> of a receiver whose service name is already
  registered returns an error and leaves the service map as it was: the first registration
  and every other entry are kept.
\<close>

theorem Register_duplicate:
  assumes "reachableServer isExported server" and "serviceMap server (typeName r) = Some s"
  shows "Register isExported server r =
           Inr (Some (''rpc: service already defined: '' @ typeName r), server)"
proof -
  from assms have "isExported (typeName r)"
    by (rule reachableServer_exported)
  with assms(2) show ?thesis
    by (simp add: Register_def newService_def)
qed

theorem Register_duplicate_witness:
  "reachableServer (\<lambda>n. n = ''Foo'')
     \<lparr>serviceMap = [''Foo'' \<mapsto> \<lparr>name = ''Foo'', rcvr = \<lparr>typeName = ''Foo'', typeMethods = []\<rparr>,
                                  methodMap = Map.empty\<rparr>]\<rparr> \<and>
   serviceMap \<lparr>serviceMap = [''Foo'' \<mapsto> \<lparr>name = ''Foo'', rcvr = \<lparr>typeName = ''Foo'', typeMethods = []\<rparr>,
                                          methodMap = Map.empty\<rparr>]\<rparr>
     (typeName \<lparr>typeName = ''Foo'', typeMethods = []\<rparr>) =
     Some \<lparr>name = ''Foo'', rcvr = \<lparr>typeName = ''Foo'', typeMethods = []\<rparr>, methodMap = Map.empty\<rparr> \<and>
   Register (\<lambda>n. n = ''Foo'')
     \<lparr>serviceMap = [''Foo'' \<mapsto> \<lparr>name = ''Foo'', rcvr = \<lparr>typeName = ''Foo'', typeMethods = []\<rparr>,
                                  methodMap = Map.empty\<rparr>]\<rparr>
     \<lparr>typeName = ''Foo'', typeMethods = []\<rparr> =
   Inr (Some ''rpc: service already defined: Foo'',
     \<lparr>serviceMap = [''Foo'' \<mapsto> \<lparr>name = ''Foo'', rcvr = \<lparr>typeName = ''Foo'', typeMethods = []\<rparr>,
                                  methodMap = Map.empty\<rparr>]\<rparr>)"
proof -
  let ?foo = "\<lparr>typeName = ''Foo'', typeMethods = []\<rparr>"
  let ?server = "\<lparr>serviceMap = [''Foo'' \<mapsto> \<lparr>name = ''Foo'', rcvr = ?foo, methodMap = Map.empty\<rparr>]\<rparr>"
  have "Register (\<lambda>n. n = ''Foo'') NewServer ?foo = Inr (None, ?server)"
    by (simp add: Register_def newService_def NewServer_def registerMethods_def)
  with reachableServer.new have r: "reachableServer (\<lambda>n. n = ''Foo'') ?server"
    by (rule reachableServer.reg)
  have m: "serviceMap ?server (typeName ?foo) =
      Some \<lparr>name = ''Foo'', rcvr = ?foo, methodMap = Map.empty\<rparr>"
    by simp
  from Register_duplicate [OF r m] r m show ?thesis
    by simp
qed

text \<open>
  Claim C6 asks for the path \<open>/_geerpc_\<close>.  \<open>HandleHTTP\<close> registers the handler of the server at
  \<open>defaultRPCPath\<close>, which the source spells \<open>/_geeprc_\<close>; nothing is registered at \<open>/_geerpc_\<close>.
\<close>

theorem HandleHTTP_path:
  "HandleHTTP Map.empty = Inr [''/_geeprc_'' \<mapsto> RPCHandler, ''/debug/geerpc'' \<mapsto> DebugHandler] \<and>
   [''/_geeprc_'' \<mapsto> RPCHandler, ''/debug/geerpc'' \<mapsto> DebugHandler] ''/_geerpc_'' = None"
  by (simp add: HandleHTTP_def http_Handle_def defaultRPCPath_def defaultDebugPath_def)

lemma server_ServeHTTP_not_CONNECT:
  "Method req \<noteq> ''CONNECT'' \<Longrightarrow>
   statusCode (writer (server_ServeHTTP w req hijack)) = 405 \<and>
   connWritten (server_ServeHTTP w req hijack) = [] \<and>
   \<not> servedConn (server_ServeHTTP w req hijack)"
  by (simp add: server_ServeHTTP_def statusCode_def StatusMethodNotAllowed_def)

lemma server_ServeHTTP_CONNECT:
  "Method req = ''CONNECT'' \<Longrightarrow>
   server_ServeHTTP w req None =
     \<lparr>writer = w, connWritten = ''HTTP/1.0 200 Connected to Gee RPC'' @ [CHR 0x0A, CHR 0x0A],
      servedConn = True\<rparr>"
  by (simp add: server_ServeHTTP_def connected_def)







text \<open>
  With any timeout, a method that returns before the timeout case is taken is answered with
  its own response, and \<open>handleRequest\<close> returns.
\<close>

lemma handleRequest_completes:
  "run fmt tmo [MethodReturns err v, RecvCalled, Respond, RecvSent] (handleRequest_init hdr v0) =
     Some \<lparr>req_h = fst (methodResponse hdr err v), replyv = v, main = Returned, worker = Finished,
           wire = [methodResponse hdr err v]\<rparr>"
  by (cases err) (simp_all add: handleRequest_init_def sendResponse_def methodResponse_def)




subsection \<open>Facts about the balanced client\<close>

lemma fold_broadcastStep_e:
  "e_err (fold (\<lambda>i. broadcastStep (res i)) order st) =
     (case e_err st of Some x \<Rightarrow> Some x | None \<Rightarrow> firstError (map (\<lambda>i. fst (res i)) order))"
proof (induction order arbitrary: st)
  case Nil
  then show ?case by (simp add: firstError_def split: option.splits)
next
  case (Cons i order)
  obtain err v where c: "res i = (err, v)" by (cases "res i")
  have "e_err (broadcastStep (res i) st) =
      (case e_err st of Some x \<Rightarrow> Some x | None \<Rightarrow> err)"
    by (simp add: broadcastStep_def c Let_def split: option.splits)
  then show ?case
    by (simp add: Cons.IH c firstError_def split: option.splits)
qed

lemma firstError_None: "firstError errs = None \<longleftrightarrow> (\<forall>x \<in> set errs. x = None)"
  by (induction errs) (auto simp: firstError_def)

text \<open>
  Claim C1, as the code has it.  For every schedule of the goroutines of a \<open>Broadcast\<close>, the
  returned error is the first error that a per-address call returned, in the order in which
  the goroutines took the mutex, whether or not other calls succeeded; it is nil exactly
  when every per-address call succeeded.
\<close>

theorem Broadcast_error:
  assumes "schedule (length srvs) order"
  shows "fst (Broadcast (Inr srvs) call order rep) =
           firstError (map (\<lambda>i. fst (call i (srvs ! i))) order) \<and>
         (fst (Broadcast (Inr srvs) call order rep) = None \<longleftrightarrow>
            (\<forall>i < length srvs. fst (call i (srvs ! i)) = None))"
proof -
  have 1: "fst (Broadcast (Inr srvs) call order rep) =
      firstError (map (\<lambda>i. fst (call i (srvs ! i))) order)"
    by (simp add: Broadcast_def Let_def fold_broadcastStep_e)
  from assms have "set order = {0..<length srvs}"
    by (simp add: schedule_def)
  then have "(\<forall>x \<in> set (map (\<lambda>i. fst (call i (srvs ! i))) order). x = None) \<longleftrightarrow>
             (\<forall>i < length srvs. fst (call i (srvs ! i)) = None)"
    by auto
  with 1 show ?thesis
    by (simp only: firstError_None)
qed

theorem Broadcast_error_witness:
  "schedule (length [''a'', ''b'', ''c'']) [1, 0, 2] \<and>
   Broadcast (Inr [''a'', ''b'', ''c''])
     (\<lambda>i rpcAddr. if rpcAddr = ''a'' then (Some ''boom'', 0::int) else if rpcAddr = ''b'' then (None, 7)
           else (Some ''context canceled'', 0))
     [1, 0, 2] (Some 99) = (Some ''boom'', Some 0) \<and>
   schedule (length [''a'', ''b'']) [1, 0] \<and>
   fst (Broadcast (Inr [''a'', ''b'']) (\<lambda>i rpcAddr. (None, 7::int)) [1, 0] (Some 99)) = None"
  using Broadcast_error [of "[''a'', ''b'', ''c'']" "[1, 0, 2]"
     "\<lambda>i rpcAddr. if rpcAddr = ''a'' then (Some ''boom'', 0::int) else if rpcAddr = ''b'' then (None, 7)
           else (Some ''context canceled'', 0)" "Some 99"]
    Broadcast_error [of "[''a'', ''b'']" "[1, 0]" "\<lambda>i rpcAddr. (None, 7::int)" "Some 99"]
  by (simp add: schedule_def Broadcast_def broadcastStep_def Let_def) auto

text \<open>
  Claim C1 as stated fails: of three calls, the first fails, the second succeeds with reply 7
  and the third is cancelled; \<open>Broadcast\<close> returns the error of the first, and the caller's
  reply is not 7.
\<close>

theorem Broadcast_counterexample:
  "schedule (length [''a'', ''b'', ''c'']) [0, 1, 2] \<and>
   Broadcast (Inr [''a'', ''b'', ''c''])
     (\<lambda>i rpcAddr. if rpcAddr = ''a'' then (Some ''boom'', 0::int) else if rpcAddr = ''b'' then (None, 7)
           else (Some ''context canceled'', 0))
     [0, 1, 2] (Some 99) = (Some ''boom'', Some 0)"
  by (simp add: schedule_def Broadcast_def broadcastStep_def Let_def) auto

subsection \<open>Facts about the client\<close>

lemma parseOptions_cases:
  "parseOptions opts =
     (if opts = [] \<or> hd opts = None then Inr DefaultOption
      else if length opts \<noteq> 1 then Inl ''number of options is more than 1''
      else Inr ((the (hd opts))\<lparr>oMagicNumber := oMagicNumber DefaultOption,
             CodecType := (if CodecType (the (hd opts)) = [] then CodecType DefaultOption
                           else CodecType (the (hd opts)))\<rparr>))"
  by (induction opts rule: parseOptions.induct) simp_all

lemma parseOptions_magic:
  "parseOptions opts = Inr op \<Longrightarrow> oMagicNumber op = 0x3bef5c \<and> CodecType op \<noteq> []"
  by (induction opts rule: parseOptions.induct)
    (auto simp: DefaultOption_def MagicNumber_def GobType_def split: if_splits)

lemma Dial_sent:
  "SendOption op \<in> set (snd (Dial network address opts nd enc :: (error + 'v world) \<times> effect list))
   \<Longrightarrow> parseOptions opts = Inr op"
  by (auto simp: Dial_def NewClient_def split: sum.splits option.splits if_splits)

lemma Dial_sends:
  "parseOptions opts = Inr op \<Longrightarrow> CodecType op = GobType \<Longrightarrow>
   (Dial network address opts None None :: (error + 'v world) \<times> effect list) =
     (Inr (newClientCodec op), [NetDial network address, SendOption op])"
  by (simp add: Dial_def NewClient_def NewCodecFuncMap_def)

lemma Dial_default:
  "opts = [] \<or> hd opts = None \<Longrightarrow>
   (Dial network address opts None None :: (error + 'v world) \<times> effect list) =
     (Inr (newClientCodec DefaultOption), [NetDial network address, SendOption DefaultOption])"
  by (simp add: Dial_sends parseOptions_cases DefaultOption_def)

lemma Dial_single:
  "(Dial network address [Some op] None None :: (error + 'v world) \<times> effect list) =
     (if CodecType op = [] \<or> CodecType op = ''application/gob''
      then (Inr (newClientCodec (op\<lparr>oMagicNumber := 0x3bef5c, CodecType := ''application/gob''\<rparr>)),
            [NetDial network address,
             SendOption (op\<lparr>oMagicNumber := 0x3bef5c, CodecType := ''application/gob''\<rparr>)])
      else (Inl (''invalid codec type '' @ CodecType op), [NetDial network address, ConnClose]))"
  by (simp add: Dial_def NewClient_def NewCodecFuncMap_def GobType_def DefaultOption_def MagicNumber_def)

text \<open>
  Claim C9, as the code has it.  Whatever \<open>Dial\<close> sends as the option has the magic number
  \<open>0x3bef5c\<close> and a codec type that is not empty; for a single option that is not nil it is the
  caller's option with the magic number overwritten and an empty codec type replaced by
  \<open>application/gob\<close>; for no option, or a first option that is nil (whatever follows it), it
  is \<open>DefaultOption\<close>.  And \<open>Dial\<close> does send it: when \<open>net.Dial\<close> and the encoder succeed, \<open>Dial\<close>
  with no option or with a nil first option dials, sends \<open>DefaultOption\<close> and returns a client
  with it; \<open>Dial\<close> with a single option whose codec type is empty or \<open>application/gob\<close> dials,
  sends the caller's option with the magic number \<open>0x3bef5c\<close> and the codec type
  \<open>application/gob\<close>, and returns a client with it; with another codec type it sends nothing
  and fails with \<open>invalid codec type\<close>.  With more than one option, the first of them not nil,
  \<open>Dial\<close> fails with \<open>number of options is more than 1\<close> and has done nothing on the network.
\<close>

theorem Dial_options:
  "(\<forall>op'. SendOption op' \<in> set (snd (Dial network address opts nd enc :: (error + 'v world) \<times> effect list)) \<longrightarrow>
      oMagicNumber op' = 0x3bef5c \<and> CodecType op' \<noteq> [] \<and>
      (\<forall>op. opts = [Some op] \<longrightarrow>
         op' = op\<lparr>oMagicNumber := 0x3bef5c,
                  CodecType := (if CodecType op = [] then ''application/gob'' else CodecType op)\<rparr>) \<and>
      (opts = [] \<or> hd opts = None \<longrightarrow> op' = DefaultOption)) \<and>
   (opts = [] \<or> hd opts = None \<longrightarrow>
      (Dial network address opts None None :: (error + 'v world) \<times> effect list) =
        (Inr (newClientCodec DefaultOption), [NetDial network address, SendOption DefaultOption])) \<and>
   (\<forall>op. opts = [Some op] \<longrightarrow>
      (Dial network address opts None None :: (error + 'v world) \<times> effect list) =
        (if CodecType op = [] \<or> CodecType op = ''application/gob''
         then (Inr (newClientCodec (op\<lparr>oMagicNumber := 0x3bef5c, CodecType := ''application/gob''\<rparr>)),
               [NetDial network address,
                SendOption (op\<lparr>oMagicNumber := 0x3bef5c, CodecType := ''application/gob''\<rparr>)])
         else (Inl (''invalid codec type '' @ CodecType op), [NetDial network address, ConnClose]))) \<and>
   (\<forall>op o2 rest. opts = Some op # o2 # rest \<longrightarrow>
      (Dial network address opts nd enc :: (error + 'v world) \<times> effect list) =
        (Inl ''number of options is more than 1'', []))"
proof (intro conjI allI impI)
  fix op'
  assume "SendOption op' \<in> set (snd (Dial network address opts nd enc :: (error + 'v world) \<times> effect list))"
  then have p: "parseOptions opts = Inr op'"
    by (rule Dial_sent)
  from p show "oMagicNumber op' = 0x3bef5c" and "CodecType op' \<noteq> []"
    by (simp_all add: parseOptions_magic)
  { fix op assume "opts = [Some op]"
    with p show "op' = op\<lparr>oMagicNumber := 0x3bef5c,
                  CodecType := (if CodecType op = [] then ''application/gob'' else CodecType op)\<rparr>"
      by (auto simp: DefaultOption_def MagicNumber_def GobType_def) }
  { assume "opts = [] \<or> hd opts = None"
    with p show "op' = DefaultOption"
      by (simp add: parseOptions_cases) }
next
  assume "opts = [] \<or> hd opts = None"
  then show "(Dial network address opts None None :: (error + 'v world) \<times> effect list) =
        (Inr (newClientCodec DefaultOption), [NetDial network address, SendOption DefaultOption])"
    by (rule Dial_default)
next
  fix op
  assume "opts = [Some op]"
  then show "(Dial network address opts None None :: (error + 'v world) \<times> effect list) =
        (if CodecType op = [] \<or> CodecType op = ''application/gob''
         then (Inr (newClientCodec (op\<lparr>oMagicNumber := 0x3bef5c, CodecType := ''application/gob''\<rparr>)),
               [NetDial network address,
                SendOption (op\<lparr>oMagicNumber := 0x3bef5c, CodecType := ''application/gob''\<rparr>)])
         else (Inl (''invalid codec type '' @ CodecType op), [NetDial network address, ConnClose]))"
    by (simp only: Dial_single)
next
  fix op o2 rest
  assume "opts = Some op # o2 # rest"
  then show "(Dial network address opts nd enc :: (error + 'v world) \<times> effect list) =
        (Inl ''number of options is more than 1'', [])"
    by (simp add: Dial_def)
qed

theorem Dial_options_witness:
  "(Dial ''tcp'' '':9999'' [Some \<lparr>oMagicNumber = 7, CodecType = [], ConnectTimeout = 0, HandleTimeout = 5\<rparr>]
      None None :: (error + nat world) \<times> effect list) =
     (Inr (newClientCodec \<lparr>oMagicNumber = 0x3bef5c, CodecType = ''application/gob'',
                            ConnectTimeout = 0, HandleTimeout = 5\<rparr>),
      [NetDial ''tcp'' '':9999'',
       SendOption \<lparr>oMagicNumber = 0x3bef5c, CodecType = ''application/gob'',
                   ConnectTimeout = 0, HandleTimeout = 5\<rparr>]) \<and>
   (Dial ''tcp'' '':9999'' [] None None :: (error + nat world) \<times> effect list) =
     (Inr (newClientCodec DefaultOption), [NetDial ''tcp'' '':9999'', SendOption DefaultOption]) \<and>
   (Dial ''tcp'' '':9999'' [None] None None :: (error + nat world) \<times> effect list) =
     (Inr (newClientCodec DefaultOption), [NetDial ''tcp'' '':9999'', SendOption DefaultOption]) \<and>
   (Dial ''tcp'' '':9999'' [Some DefaultOption, Some DefaultOption] None None
      :: (error + nat world) \<times> effect list) = (Inl ''number of options is more than 1'', [])"
proof -
  let ?op = "\<lparr>oMagicNumber = 7, CodecType = [], ConnectTimeout = 0, HandleTimeout = 5\<rparr>"
  note t = Dial_options [where 'v = nat, of "''tcp''" "'':9999''" _ None None]
  from t [of "[Some ?op]"]
  have "(Dial ''tcp'' '':9999'' [Some ?op] None None :: (error + nat world) \<times> effect list) =
        (if CodecType ?op = [] \<or> CodecType ?op = ''application/gob''
         then (Inr (newClientCodec (?op\<lparr>oMagicNumber := 0x3bef5c, CodecType := ''application/gob''\<rparr>)),
               [NetDial ''tcp'' '':9999'',
                SendOption (?op\<lparr>oMagicNumber := 0x3bef5c, CodecType := ''application/gob''\<rparr>)])
         else (Inl (''invalid codec type '' @ CodecType ?op), [NetDial ''tcp'' '':9999'', ConnClose]))"
    by blast
  then have a: "(Dial ''tcp'' '':9999'' [Some ?op] None None :: (error + nat world) \<times> effect list) =
     (Inr (newClientCodec \<lparr>oMagicNumber = 0x3bef5c, CodecType = ''application/gob'',
                            ConnectTimeout = 0, HandleTimeout = 5\<rparr>),
      [NetDial ''tcp'' '':9999'',
       SendOption \<lparr>oMagicNumber = 0x3bef5c, CodecType = ''application/gob'',
                   ConnectTimeout = 0, HandleTimeout = 5\<rparr>])"
    by simp
  from t [of "[]"]
  have b: "(Dial ''tcp'' '':9999'' [] None None :: (error + nat world) \<times> effect list) =
     (Inr (newClientCodec DefaultOption), [NetDial ''tcp'' '':9999'', SendOption DefaultOption])"
    by blast
  have "hd [None :: Option option] = None"
    by simp
  with t [of "[None]"]
  have b': "(Dial ''tcp'' '':9999'' [None] None None :: (error + nat world) \<times> effect list) =
     (Inr (newClientCodec DefaultOption), [NetDial ''tcp'' '':9999'', SendOption DefaultOption])"
    by blast
  from t [of "[Some DefaultOption, Some DefaultOption]"]
  have c: "(Dial ''tcp'' '':9999'' [Some DefaultOption, Some DefaultOption] None None
      :: (error + nat world) \<times> effect list) = (Inl ''number of options is more than 1'', [])"
    by blast
  from a b b' c show ?thesis by blast
qed

text \<open>
  Claim C9 as stated fails: with two options of which the first is nil, \<open>Dial\<close> does not fail; it
  dials and sends \<open>DefaultOption\<close>.
\<close>

theorem Dial_options_counterexample:
  "(Dial ''tcp'' '':9999'' [None, Some DefaultOption] None None :: (error + nat world) \<times> effect list) =
     (Inr (newClientCodec DefaultOption), [NetDial ''tcp'' '':9999'', SendOption DefaultOption])"
  by (simp add: Dial_def NewClient_def NewCodecFuncMap_def DefaultOption_def)

lemma chanSend_not_Panic: "chanSend ch c st \<noteq> Panic m"
  by (simp add: chanSend_def)

lemma call_done_not_Panic: "call_done c st \<noteq> Panic m"
  by (simp add: call_done_def chanSend_not_Panic)

lemma setError_simps:
  "client (setError c err st) = client st"
  "chans (setError c err st) = chans st"
  "written (setError c err st) = written st"
  "ccClosed (setError c err st) = ccClosed st"
  "length (calls (setError c err st)) = length (calls st)"
  by (simp_all add: setError_def)

lemma setError_Done: "Done (calls (setError c err st) ! c') = Done (calls st ! c')"
proof (cases "c < length (calls st)")
  case True
  then show ?thesis
    by (simp add: setError_def nth_list_update)
next
  case False
  then show ?thesis
    by (simp add: setError_def list_update_beyond)
qed

lemma terminateLoop_not_Panic: "terminateLoop err ps st \<noteq> Panic m"
  by (induction ps arbitrary: st) (auto simp: call_done_not_Panic split: result.splits)














lemma call_done_Returns:
  assumes "Done (calls st ! c) < length (chans st)"
    and "buffered (chans st ! Done (calls st ! c)) < cap (chans st ! Done (calls st ! c))"
  shows "call_done c st =
     Returns (st\<lparr>chans := (chans st)[Done (calls st ! c) :=
        (chans st ! Done (calls st ! c))\<lparr>sent := sent (chans st ! Done (calls st ! c)) @ [c]\<rparr>]\<rparr>)"
  using assms by (simp add: call_done_def chanSend_def)

lemma call_done_frame:
  assumes "call_done c st = Returns st'"
  shows "calls st' = calls st" and "client st' = client st" and "written st' = written st"
    and "ccClosed st' = ccClosed st" and "length (chans st') = length (chans st)"
    and "map cap (chans st') = map cap (chans st)"
proof -
  from assms have st': "st' = st\<lparr>chans := (chans st)[Done (calls st ! c) :=
        (chans st ! Done (calls st ! c))\<lparr>sent := sent (chans st ! Done (calls st ! c)) @ [c]\<rparr>]\<rparr>"
    and d: "Done (calls st ! c) < length (chans st)"
    by (auto simp: call_done_def chanSend_def split: if_splits)
  show "calls st' = calls st" "client st' = client st" "written st' = written st"
    "ccClosed st' = ccClosed st" "length (chans st') = length (chans st)"
    by (simp_all add: st')
  show "map cap (chans st') = map cap (chans st)"
    using d by (simp add: st' map_update list_update_same_conv)
qed

lemma sameCall_update:
  assumes "sameCall v (cs ! c)"
  shows "sameCall (cs[c := v] ! c') (cs ! c')"
proof (cases "c < length cs \<and> c = c'")
  case True
  with assms show ?thesis by simp
next
  case False
  then have "cs[c := v] ! c' = cs ! c'"
    by (cases "c < length cs") (auto simp: list_update_beyond)
  then show ?thesis
    by (simp add: sameCall_def)
qed

lemma sameCall_setError: "sameCall (calls (setError c err st) ! c') (calls st ! c')"
proof -
  have "sameCall ((calls st)[c := (calls st ! c)\<lparr>Call.Error := err\<rparr>] ! c') (calls st ! c')"
    by (rule sameCall_update) (simp add: sameCall_def)
  then show ?thesis
    by (simp add: setError_def)
qed

lemma send_eq:
  "send c wr st =
     (if closing (client st) \<or> shutdown (client st)
      then call_done c (setError c (Some ErrShutdown) st)
      else case wr of
             None \<Rightarrow>
               Returns (st\<lparr>calls := (calls st)[c := (calls st ! c)\<lparr>Call.Seq := seq (client st)\<rparr>],
                  client := (client st)\<lparr>pending := AList.update (seq (client st)) c (pending (client st)),
                                         seq := seq (client st) + 1,
                                         header := \<lparr>ServiceMethod =
                                             Call.ServiceMethod (((calls st)[c := (calls st ! c)\<lparr>Call.Seq := seq (client st)\<rparr>]) ! c),
                                           Seq = seq (client st), Error = []\<rparr>\<rparr>,
                  written := written st @
                    [(\<lparr>ServiceMethod =
                         Call.ServiceMethod (((calls st)[c := (calls st ! c)\<lparr>Call.Seq := seq (client st)\<rparr>]) ! c),
                       Seq = seq (client st), Error = []\<rparr>,
                      Args (((calls st)[c := (calls st ! c)\<lparr>Call.Seq := seq (client st)\<rparr>]) ! c))]\<rparr>)
           | Some err \<Rightarrow>
               call_done c (setError c (Some err)
                 (st\<lparr>calls := (calls st)[c := (calls st ! c)\<lparr>Call.Seq := seq (client st)\<rparr>],
                  client := (client st)\<lparr>seq := seq (client st) + 1,
                    header := \<lparr>ServiceMethod =
                        Call.ServiceMethod (((calls st)[c := (calls st ! c)\<lparr>Call.Seq := seq (client st)\<rparr>]) ! c),
                      Seq = seq (client st), Error = []\<rparr>,
                    pending :=
                      AList.delete (seq (client st)) (AList.update (seq (client st)) c (pending (client st)))\<rparr>\<rparr>)))"
  by (simp add: send_def registerCall_def removeCall_def Let_def update_conv' split: option.splits)

lemma send_frame:
  assumes "send c wr st = Returns st'"
  shows "length (calls st') = length (calls st)" and "length (chans st') = length (chans st)"
    and "map cap (chans st') = map cap (chans st)" and "sameCall (calls st' ! c') (calls st ! c')"
    and "ccClosed st' = ccClosed st"
proof -
  let ?cs = "(calls st)[c := (calls st ! c)\<lparr>Call.Seq := seq (client st)\<rparr>]"
  have same: "sameCall (?cs ! c') (calls st ! c')"
    by (rule sameCall_update) (simp add: sameCall_def)
  have tr: "sameCall a b \<Longrightarrow> sameCall b d \<Longrightarrow> sameCall a d" for a b d :: "'a Call"
    by (simp add: sameCall_def)
  consider (down) "closing (client st) \<or> shutdown (client st)"
    | (ok) "\<not> (closing (client st) \<or> shutdown (client st))" "wr = None"
    | (fail) err where "\<not> (closing (client st) \<or> shutdown (client st))" "wr = Some err"
    by (cases wr) auto
  then have "length (calls st') = length (calls st) \<and> length (chans st') = length (chans st) \<and>
      map cap (chans st') = map cap (chans st) \<and> sameCall (calls st' ! c') (calls st ! c') \<and>
      ccClosed st' = ccClosed st"
  proof cases
    case down
    with assms have "call_done c (setError c (Some ErrShutdown) st) = Returns st'"
      by (simp add: send_eq)
    from call_done_frame [OF this] show ?thesis
      by (simp add: setError_simps sameCall_setError)
  next
    case ok
    with assms same show ?thesis
      by (auto simp: send_eq)
  next
    case fail
    let ?st2 = "st\<lparr>calls := ?cs,
                  client := (client st)\<lparr>seq := seq (client st) + 1,
                    header := \<lparr>ServiceMethod = Call.ServiceMethod (?cs ! c),
                      Seq = seq (client st), Error = []\<rparr>,
                    pending :=
                      AList.delete (seq (client st)) (AList.update (seq (client st)) c (pending (client st)))\<rparr>\<rparr>"
    from fail assms have "call_done c (setError c (Some err) ?st2) = Returns st'"
      by (simp add: send_eq)
    from call_done_frame [OF this] sameCall_setError [of c "Some err" ?st2 c'] same show ?thesis
      by (auto simp: setError_simps intro: tr)
  qed
  then show "length (calls st') = length (calls st)" and "length (chans st') = length (chans st)"
    and "map cap (chans st') = map cap (chans st)" and "sameCall (calls st' ! c') (calls st ! c')"
    and "ccClosed st' = ccClosed st"
    by simp_all
qed

lemma send_not_Panic: "send c wr st \<noteq> Panic m"
  by (simp add: send_eq call_done_not_Panic split: option.splits)

lemma send_Returns:
  assumes "c < length (calls st)" and "Done (calls st ! c) < length (chans st)"
    and "buffered (chans st ! Done (calls st ! c)) < cap (chans st ! Done (calls st ! c))"
  shows "\<exists>st'. send c wr st = Returns st'"
proof -
  have d: "\<exists>st'. call_done c (setError c e st0) = Returns st'"
    if "chans st0 = chans st" "Done (calls st0 ! c) = Done (calls st ! c)" for e st0
    using assms that by (simp add: call_done_def chanSend_def setError_simps setError_Done)
  show ?thesis
  proof (cases "closing (client st) \<or> shutdown (client st)")
    case True
    with d [of st "Some ErrShutdown"] show ?thesis
      by (simp add: send_eq)
  next
    case False
    show ?thesis
    proof (cases wr)
      case None
      with False show ?thesis by (simp add: send_eq)
    next
      case (Some err)
      let ?cs = "(calls st)[c := (calls st ! c)\<lparr>Call.Seq := seq (client st)\<rparr>]"
      let ?st2 = "st\<lparr>calls := ?cs,
                  client := (client st)\<lparr>seq := seq (client st) + 1,
                    header := \<lparr>ServiceMethod = Call.ServiceMethod (?cs ! c),
                      Seq = seq (client st), Error = []\<rparr>,
                    pending :=
                      AList.delete (seq (client st)) (AList.update (seq (client st)) c (pending (client st)))\<rparr>\<rparr>"
      have "\<exists>st'. call_done c (setError c (Some err) ?st2) = Returns st'"
        using assms(1) by (intro d) simp_all
      with False Some show ?thesis
        by (simp add: send_eq)
    qed
  qed
qed

lemma Go_eq_send:
  "Go serviceMethod args rep None wr st =
     (case send (length (calls st)) wr
        (st\<lparr>chans := chans st @ [\<lparr>cap = 10, sent = [], taken = 0\<rparr>],
            calls := calls st @
              [\<lparr>Call.Seq = 0, Call.ServiceMethod = serviceMethod, Args = args, Reply = rep,
                Call.Error = None, Done = length (chans st)\<rparr>]\<rparr>) of
        Returns st3 \<Rightarrow> Returns (length (calls st), st3)
      | Blocked \<Rightarrow> Blocked
      | Panic m \<Rightarrow> Panic m)"
  "cap (chans st ! ch) \<noteq> 0 \<Longrightarrow>
   Go serviceMethod args rep (Some ch) wr st =
     (case send (length (calls st)) wr
        (st\<lparr>calls := calls st @
              [\<lparr>Call.Seq = 0, Call.ServiceMethod = serviceMethod, Args = args, Reply = rep,
                Call.Error = None, Done = ch\<rparr>]\<rparr>) of
        Returns st3 \<Rightarrow> Returns (length (calls st), st3)
      | Blocked \<Rightarrow> Blocked
      | Panic m \<Rightarrow> Panic m)"
  by (simp_all add: Go_def makeChan_def Let_def split: result.splits)

lemma Go_nil:
  "\<exists>st'. Go serviceMethod args rep None wr st = Returns (length (calls st), st') \<and>
         length (chans st') = Suc (length (chans st)) \<and>
         cap (chans st' ! length (chans st)) = 10 \<and>
         madeCall st' (length (calls st)) serviceMethod args rep (length (chans st))"
proof -
  let ?c = "length (calls st)" and ?n = "length (chans st)"
  let ?st2 = "st\<lparr>chans := chans st @ [\<lparr>cap = 10, sent = [], taken = 0\<rparr>],
            calls := calls st @
              [\<lparr>Call.Seq = 0, Call.ServiceMethod = serviceMethod, Args = args, Reply = rep,
                Call.Error = None, Done = ?n\<rparr>]\<rparr>"
  have "\<exists>st'. send ?c wr ?st2 = Returns st'"
    by (rule send_Returns) (simp_all add: buffered_def)
  then obtain st3 where s: "send ?c wr ?st2 = Returns st3" ..
  from send_frame(1-3) [OF s] send_frame(4) [OF s, of ?c]
  have "length (calls st3) = Suc ?c" "length (chans st3) = Suc ?n"
    "map cap (chans st3) ! ?n = map cap (chans ?st2) ! ?n" "sameCall (calls st3 ! ?c) (calls ?st2 ! ?c)"
    by simp_all
  then have "length (chans st3) = Suc ?n \<and> cap (chans st3 ! ?n) = 10 \<and>
      madeCall st3 ?c serviceMethod args rep ?n"
    by (simp add: madeCall_def sameCall_def nth_append)
  with s show ?thesis
    by (simp add: Go_eq_send)
qed

lemma Go_unbuffered:
  "cap (chans st ! ch) = 0 \<Longrightarrow>
   Go serviceMethod args rep (Some ch) wr st = Panic ''rpc client: done channel is unbuffered''"
  by (simp add: Go_def)

lemma Go_buffered:
  assumes "cap (chans st ! ch) \<noteq> 0"
  shows "Go serviceMethod args rep (Some ch) wr st \<noteq> Panic m"
    and "Go serviceMethod args rep (Some ch) wr st = Returns (c, st') \<Longrightarrow>
         c = length (calls st) \<and> length (chans st') = length (chans st) \<and>
         madeCall st' c serviceMethod args rep ch"
    and "ch < length (chans st) \<Longrightarrow> buffered (chans st ! ch) < cap (chans st ! ch) \<Longrightarrow>
         \<exists>st'. Go serviceMethod args rep (Some ch) wr st = Returns (length (calls st), st')"
proof -
  let ?c = "length (calls st)"
  let ?st2 = "st\<lparr>calls := calls st @
              [\<lparr>Call.Seq = 0, Call.ServiceMethod = serviceMethod, Args = args, Reply = rep,
                Call.Error = None, Done = ch\<rparr>]\<rparr>"
  note go = Go_eq_send(2) [OF assms, of serviceMethod args rep wr]
  show "Go serviceMethod args rep (Some ch) wr st \<noteq> Panic m"
    by (simp add: go send_not_Panic split: result.splits)
  { assume "Go serviceMethod args rep (Some ch) wr st = Returns (c, st')"
    then have s: "send ?c wr ?st2 = Returns st'" and c: "c = ?c"
      by (auto simp: go split: result.splits)
    from send_frame(1-3) [OF s] send_frame(4) [OF s, of ?c]
    have "length (calls st') = Suc ?c" "length (chans st') = length (chans st)"
      "sameCall (calls st' ! ?c) (calls ?st2 ! ?c)"
      by simp_all
    with c show "c = length (calls st) \<and> length (chans st') = length (chans st) \<and>
         madeCall st' c serviceMethod args rep ch"
      by (simp add: madeCall_def sameCall_def) }
  { assume "ch < length (chans st)" "buffered (chans st ! ch) < cap (chans st ! ch)"
    then have "\<exists>st'. send ?c wr ?st2 = Returns st'"
      by (intro send_Returns) simp_all
    then show "\<exists>st'. Go serviceMethod args rep (Some ch) wr st = Returns (length (calls st), st')"
      by (auto simp: go) }
qed

text \<open>
  Claim C8.  \<open>Go\<close> with a nil \<open>done\<close> allocates a new channel of capacity 10, and returns a new
  call that carries the service method, the arguments, the reply and that channel.  \<open>Go\<close>
  with a channel of capacity 0 panics.  \<open>Go\<close> with a channel of another capacity does not
  panic, allocates no channel, and the call it returns carries the service method, the
  arguments, the reply and the caller's channel; it returns whenever that channel has a free
  place.
\<close>

theorem Go_done_channel:
  "(dn = None \<longrightarrow>
      (\<exists>st'. Go serviceMethod args rep dn wr st = Returns (length (calls st), st') \<and>
         length (chans st') = Suc (length (chans st)) \<and>
         cap (chans st' ! length (chans st)) = 10 \<and>
         madeCall st' (length (calls st)) serviceMethod args rep (length (chans st)))) \<and>
   (\<forall>ch. dn = Some ch \<and> cap (chans st ! ch) = 0 \<longrightarrow>
      Go serviceMethod args rep dn wr st = Panic ''rpc client: done channel is unbuffered'') \<and>
   (\<forall>ch. dn = Some ch \<and> cap (chans st ! ch) \<noteq> 0 \<longrightarrow>
      (\<forall>m. Go serviceMethod args rep dn wr st \<noteq> Panic m) \<and>
      (\<forall>c st'. Go serviceMethod args rep dn wr st = Returns (c, st') \<longrightarrow>
         c = length (calls st) \<and> length (chans st') = length (chans st) \<and>
         madeCall st' c serviceMethod args rep ch) \<and>
      (ch < length (chans st) \<and> buffered (chans st ! ch) < cap (chans st ! ch) \<longrightarrow>
         (\<exists>st'. Go serviceMethod args rep dn wr st = Returns (length (calls st), st'))))"
  using Go_nil [of serviceMethod args rep wr st] Go_unbuffered [of st _ serviceMethod args rep wr]
    Go_buffered [of st _ serviceMethod args rep wr]
  by blast










































lemma wf_pendingExample: "wf pendingExample"
  by (simp add: wf_def pendingExample_def signals_def)










theorem Go_done_channel_witness:
  "(case Go ''Foo.Sum'' (5::nat) 0 None None (newClientCodec DefaultOption) of
      Returns (c, st') \<Rightarrow> c = 0 \<and> cap (chans st' ! 0) = 10 \<and> madeCall st' 0 ''Foo.Sum'' 5 0 0
    | Blocked \<Rightarrow> False | Panic m \<Rightarrow> False) \<and>
   cap (chans ((newClientCodec DefaultOption)\<lparr>chans := [\<lparr>cap = 0, sent = [], taken = 0\<rparr>]\<rparr>) ! 0) = 0 \<and>
   Go ''Foo.Sum'' (5::nat) 0 (Some 0) None
      ((newClientCodec DefaultOption)\<lparr>chans := [\<lparr>cap = 0, sent = [], taken = 0\<rparr>]\<rparr>) =
     Panic ''rpc client: done channel is unbuffered'' \<and>
   cap (chans ((newClientCodec DefaultOption)\<lparr>chans := [\<lparr>cap = 3, sent = [], taken = 0\<rparr>]\<rparr>) ! 0) \<noteq> 0 \<and>
   (case Go ''Foo.Sum'' (5::nat) 0 (Some 0) (Some ''broken pipe'')
      ((newClientCodec DefaultOption)\<lparr>chans := [\<lparr>cap = 3, sent = [], taken = 0\<rparr>]\<rparr>) of
      Returns (c, st') \<Rightarrow> c = 0 \<and> chans st' = [\<lparr>cap = 3, sent = [0], taken = 0\<rparr>] \<and>
         madeCall st' 0 ''Foo.Sum'' 5 0 0 \<and> Call.Error (calls st' ! 0) = Some ''broken pipe''
    | Blocked \<Rightarrow> False | Panic m \<Rightarrow> False)"
proof -
  let ?st0 = "(newClientCodec DefaultOption :: nat world)\<lparr>chans := [\<lparr>cap = 0, sent = [], taken = 0\<rparr>]\<rparr>"
  have c0: "cap (chans ?st0 ! 0) = 0"
    by simp
  from c0 Go_done_channel [of "Some 0" "''Foo.Sum''" 5 0 None ?st0]
  have p: "Go ''Foo.Sum'' (5::nat) 0 (Some 0) None ?st0 = Panic ''rpc client: done channel is unbuffered''"
    by blast
  have a: "(case Go ''Foo.Sum'' (5::nat) 0 None None (newClientCodec DefaultOption) of
      Returns (c, st') \<Rightarrow> c = 0 \<and> cap (chans st' ! 0) = 10 \<and> madeCall st' 0 ''Foo.Sum'' 5 0 0
    | Blocked \<Rightarrow> False | Panic m \<Rightarrow> False)"
    by (simp add: Go_def makeChan_def send_def registerCall_def newClientCodec_def Let_def madeCall_def)
  have b: "(case Go ''Foo.Sum'' (5::nat) 0 (Some 0) (Some ''broken pipe'')
      ((newClientCodec DefaultOption)\<lparr>chans := [\<lparr>cap = 3, sent = [], taken = 0\<rparr>]\<rparr>) of
      Returns (c, st') \<Rightarrow> c = 0 \<and> chans st' = [\<lparr>cap = 3, sent = [0], taken = 0\<rparr>] \<and>
         madeCall st' 0 ''Foo.Sum'' 5 0 0 \<and> Call.Error (calls st' ! 0) = Some ''broken pipe''
    | Blocked \<Rightarrow> False | Panic m \<Rightarrow> False)"
    by (simp add: Go_def send_def registerCall_def removeCall_def newClientCodec_def Let_def
        madeCall_def call_done_def chanSend_def setError_def buffered_def)
  from a b c0 p show ?thesis
    by simp
qed


end
